theory Spec2Isabelle
  imports Complex_Main
begin

section \<open>SNGP toxic-comments driver (baselines/toxic_comments/sngp.py)\<close>

text \<open>
  A shallow embedding of the driver script. Python exceptions are values of
  \<open>error\<close>; a function that can raise returns \<open>error + 'a\<close> with \<open>Inl\<close> the
  exception. String flags whose default is \<^verbatim>\<open>None\<close> are \<open>string option\<close>.
  Tensors are lists (and lists of lists) over the reals; rounding of float32 is
  not modelled.
\<close>

datatype error =
    ValueError string
  | KeyError string
  | OutOfRangeError
  | ZeroDivisionError
  | IllegalFlagValueError string

subsection \<open>Truthiness of string flags and \<^verbatim>\<open>os.path.join\<close>\<close>

text \<open>Python's \<^verbatim>\<open>not s\<close> for a value that is \<^verbatim>\<open>None\<close> or a string.\<close>

fun falsy :: "string option \<Rightarrow> bool" where
  "falsy None = True"
| "falsy (Some s) = (s = [])"

text \<open>
  \<^verbatim>\<open>posixpath.join(a, b)\<close>: an absolute \<open>b\<close> replaces \<open>a\<close>; otherwise \<open>b\<close> is
  appended, after a separator unless \<open>a\<close> is empty or already ends with one.
\<close>

definition os_path_join :: "string \<Rightarrow> string \<Rightarrow> string" where
  "os_path_join a b =
     (if take 1 b = ''/'' then b
      else if a = [] \<or> last a = CHR ''/'' then a @ b
      else a @ ''/'' @ b)"

subsection \<open>Flag validation\<close>

record flags =
  prediction_mode :: bool
  eval_checkpoint_dir :: "string option"
  output_dir :: string

text \<open>
  \<^verbatim>\<open>_check_checkpoint_dir_for_prediction_mode(flags_dict)\<close>:
  \<^verbatim>\<open>not flags_dict['prediction_mode'] or (flags_dict['eval_checkpoint_dir'] is not None)\<close>.
\<close>

definition check_checkpoint_dir_for_prediction_mode :: "'a flags_scheme \<Rightarrow> bool" where
  "check_checkpoint_dir_for_prediction_mode flags_dict =
     (\<not> prediction_mode flags_dict \<or> eval_checkpoint_dir flags_dict \<noteq> None)"

text \<open>
  The validator is registered with \<^verbatim>\<open>flags.multi_flags_validator\<close>; \<^verbatim>\<open>app.run(main)\<close>
  parses the flags and runs every registered validator before it calls \<^verbatim>\<open>main\<close>,
  and a validator that returns false stops the start-up with the registered
  message. \<open>app_run\<close> is that order of events, with \<open>main\<close> a parameter.
\<close>

definition app_run :: "('a flags_scheme \<Rightarrow> 'r) \<Rightarrow> 'a flags_scheme \<Rightarrow> error + 'r" where
  "app_run main fl =
     (if check_checkpoint_dir_for_prediction_mode fl then Inr (main fl)
      else Inl (IllegalFlagValueError
                  ''`eval_checkpoint_dir` should be provided in prediction mode''))"

subsection \<open>Resolving the BERT checkpoint and config paths\<close>

text \<open>
  \<^verbatim>\<open>resolve_bert_ckpt_and_config_dir(bert_dir, bert_config_dir, bert_ckpt_dir)\<close>;
  the result is the pair \<^verbatim>\<open>(bert_config_dir, bert_ckpt_dir)\<close>.
\<close>

definition resolve_bert_ckpt_and_config_dir ::
  "string option \<Rightarrow> string option \<Rightarrow> string option \<Rightarrow> error + (string option \<times> string option)"
where
  "resolve_bert_ckpt_and_config_dir bert_dir bert_config_dir bert_ckpt_dir =
     (let missing_ckpt_or_config_dir = (falsy bert_ckpt_dir \<or> falsy bert_config_dir) in
      if missing_ckpt_or_config_dir then
        (case bert_dir of
           None \<Rightarrow> Inl (ValueError ''bert_dir cannot be empty.'')
         | Some d \<Rightarrow>
             if d = [] then Inl (ValueError ''bert_dir cannot be empty.'')
             else
               (let bert_config_dir' =
                      (if falsy bert_config_dir
                       then Some (os_path_join d ''bert_config.json'')
                       else bert_config_dir);
                    bert_ckpt_dir' =
                      (if falsy bert_ckpt_dir
                       then Some (os_path_join d ''bert_model.ckpt'')
                       else bert_ckpt_dir)
                in Inr (bert_config_dir', bert_ckpt_dir')))
      else Inr (bert_config_dir, bert_ckpt_dir))"

subsection \<open>Features and labels of a batch\<close>

text \<open>The tuple \<^verbatim>\<open>_IDENTITY_LABELS\<close>.\<close>

definition IDENTITY_LABELS :: "string list" where
  "IDENTITY_LABELS =
     [''male'', ''female'', ''transgender'', ''other_gender'',
      ''heterosexual'', ''homosexual_gay_or_lesbian'', ''bisexual'',
      ''other_sexual_orientation'', ''christian'', ''jewish'', ''muslim'',
      ''hindu'', ''buddhist'', ''atheist'', ''other_religion'', ''black'',
      ''white'', ''asian'', ''latino'', ''other_race_or_ethnicity'',
      ''physical_disability'',
      ''intellectual_or_learning_disability'',
      ''psychiatric_or_mental_illness'', ''other_disability'']"

text \<open>\<^verbatim>\<open>inputs[k]\<close> on a dict: a missing key raises \<^verbatim>\<open>KeyError\<close>.\<close>

definition getitem :: "(string \<rightharpoonup> 'v) \<Rightarrow> string \<Rightarrow> error + 'v" where
  "getitem inputs k = (case inputs k of None \<Rightarrow> Inl (KeyError k) | Some v \<Rightarrow> Inr v)"

text \<open>
  One turn of the loop over \<^verbatim>\<open>_IDENTITY_LABELS\<close>:
  \<^verbatim>\<open>if additional_label in inputs: additional_labels[additional_label] = inputs[additional_label]\<close>.
\<close>

definition add_additional_label ::
  "(string \<rightharpoonup> 'v) \<Rightarrow> string \<Rightarrow> (string \<rightharpoonup> 'v) \<Rightarrow> (string \<rightharpoonup> 'v)" where
  "add_additional_label inputs additional_label additional_labels =
     (case inputs additional_label of
        Some v \<Rightarrow> additional_labels(additional_label \<mapsto> v)
      | None \<Rightarrow> additional_labels)"

text \<open>
  \<^verbatim>\<open>create_feature_and_label(inputs)\<close> returns
  \<^verbatim>\<open>[input_ids, input_mask, segment_ids], labels, additional_labels\<close>.
\<close>

definition create_feature_and_label ::
  "(string \<rightharpoonup> 'v) \<Rightarrow> error + ('v list \<times> 'v \<times> (string \<rightharpoonup> 'v))" where
  "create_feature_and_label inputs =
     (case getitem inputs ''input_ids'' of Inl e \<Rightarrow> Inl e | Inr input_ids \<Rightarrow>
     (case getitem inputs ''input_mask'' of Inl e \<Rightarrow> Inl e | Inr input_mask \<Rightarrow>
     (case getitem inputs ''segment_ids'' of Inl e \<Rightarrow> Inl e | Inr segment_ids \<Rightarrow>
     (case getitem inputs ''labels'' of Inl e \<Rightarrow> Inl e | Inr labels \<Rightarrow>
        Inr ([input_ids, input_mask, segment_ids], labels,
             fold (add_additional_label inputs) IDENTITY_LABELS Map.empty)))))"

subsection \<open>Tensor operations\<close>

text \<open>
  A tensor of shape \<^verbatim>\<open>(batch,)\<close> or \<^verbatim>\<open>(batch, 1)\<close> is the list of its batch
  entries (so \<^verbatim>\<open>tf.squeeze\<close> on the unit axis is the identity); a tensor of
  shape \<^verbatim>\<open>(num_samples, batch)\<close> or \<^verbatim>\<open>(batch, batch)\<close> is a list of rows.
\<close>

definition sigmoid :: "real \<Rightarrow> real" where
  "sigmoid x = 1 / (1 + exp (- x))"

text \<open>
  \<^verbatim>\<open>tf.nn.sigmoid_cross_entropy_with_logits(labels=z, logits=x)\<close>, elementwise
  \<^verbatim>\<open>max(x, 0) - x * z + log(1 + exp(-abs(x)))\<close>.
\<close>

definition sigmoid_cross_entropy_with_logits :: "real list \<Rightarrow> real list \<Rightarrow> real list" where
  "sigmoid_cross_entropy_with_logits labels logits =
     map2 (\<lambda>z x. max x 0 - x * z + ln (1 + exp (- \<bar>x\<bar>))) labels logits"

definition reduce_mean :: "real list \<Rightarrow> real" where
  "reduce_mean xs = sum_list xs / real (length xs)"

text \<open>\<^verbatim>\<open>tf.reduce_logsumexp(t, axis=0)\<close> on a list of rows: one value per column.\<close>

definition reduce_logsumexp_axis0 :: "real list list \<Rightarrow> real list" where
  "reduce_logsumexp_axis0 rows = map (\<lambda>col. ln (sum_list (map exp col))) (transpose rows)"

text \<open>\<^verbatim>\<open>tf.reduce_mean(t, axis=0)\<close> on a list of rows.\<close>

definition reduce_mean_axis0 :: "real list list \<Rightarrow> real list" where
  "reduce_mean_axis0 rows = map reduce_mean (transpose rows)"

definition eye :: "nat \<Rightarrow> real list list" where
  "eye n = map (\<lambda>i. map (\<lambda>j. if i = j then 1 else 0) [0..<n]) [0..<n]"

text \<open>\<^verbatim>\<open>tf.linalg.diag_part\<close> of a square matrix.\<close>

definition diag_part :: "real list list \<Rightarrow> real list" where
  "diag_part m = map (\<lambda>i. m ! i ! i) [0..<length m]"

text \<open>
  \<^verbatim>\<open>tf.math.argmax\<close> along the last axis: the index of the largest entry, the
  smallest such index on a tie.
\<close>

fun argmax :: "real list \<Rightarrow> nat" where
  "argmax [] = 0"
| "argmax (x # xs) = (if list_all (\<lambda>y. y \<le> x) xs then 0 else Suc (argmax xs))"

subsection \<open>Mean-field calibration\<close>

text \<open>
  Modelled from the spec: \<^verbatim>\<open>ed.layers.utils.mean_field_logits\<close> is called by
  \<^verbatim>\<open>test_step\<close> and \<^verbatim>\<open>final_eval_step\<close> but its body is not part of the source
  file. The spec's contract (section 4.3):
  \<^verbatim>\<open>calibrated_logit_i = logit_i / sqrt(1 + mean_field_factor * var_i)\<close> with
  \<^verbatim>\<open>var_i\<close> the diagonal of the covariance, and \<^verbatim>\<open>mean_field_factor < 0\<close> returns
  the logits unchanged.
\<close>

definition mean_field_logits :: "real list \<Rightarrow> real list list \<Rightarrow> real \<Rightarrow> real list" where
  "mean_field_logits logits covmat mean_field_factor =
     (if mean_field_factor < 0 then logits
      else map2 (\<lambda>logit var. logit / sqrt (1 + mean_field_factor * var))
             logits (diag_part covmat))"

subsection \<open>The forward pass of the evaluation steps\<close>

text \<open>
  What \<^verbatim>\<open>model(features, training=...)\<close> returns: bare logits in baseline mode, a
  tuple of logits and covariance matrix with the GP layer
  (\<^verbatim>\<open>isinstance(logits, tuple)\<close>).
\<close>

datatype model_output =
    Logits "real list"
  | LogitsCovmat "real list" "real list list"

text \<open>
  Lines 489-493 of \<^verbatim>\<open>test_step\<close> and 569-573 of \<^verbatim>\<open>final_eval_step\<close> (the same
  text in both): the pair \<^verbatim>\<open>(logits, covmat)\<close> after the \<^verbatim>\<open>isinstance\<close> test.
\<close>

definition logits_and_covmat :: "nat \<Rightarrow> model_output \<Rightarrow> real list \<times> real list list" where
  "logits_and_covmat test_batch_size out =
     (case out of
        LogitsCovmat logits covmat \<Rightarrow> (logits, covmat)
      | Logits logits \<Rightarrow> (logits, eye test_batch_size))"

text \<open>One Monte-Carlo sample of \<^verbatim>\<open>test_step\<close>: calibrated logits and \<^verbatim>\<open>stddev\<close>.\<close>

definition test_step_sample ::
  "nat \<Rightarrow> real \<Rightarrow> model_output \<Rightarrow> real list \<times> real list" where
  "test_step_sample test_batch_size gp_mean_field_factor out =
     (let (logits, covmat) = logits_and_covmat test_batch_size out
      in (mean_field_logits logits covmat gp_mean_field_factor,
          map sqrt (diag_part covmat)))"

text \<open>The logits that \<^verbatim>\<open>final_eval_step\<close> returns for export.\<close>

definition final_eval_step_logits :: "nat \<Rightarrow> real \<Rightarrow> model_output \<Rightarrow> real list" where
  "final_eval_step_logits test_batch_size gp_mean_field_factor out =
     (let (logits, covmat) = logits_and_covmat test_batch_size out
      in mean_field_logits logits covmat gp_mean_field_factor)"

subsection \<open>Losses and metric updates of the steps\<close>

datatype loss_type = cross_entropy | mse | mae

text \<open>
  The arguments of one \<^verbatim>\<open>update_state\<close> call: labels with predicted classes
  (accuracy), labels with class probabilities (ECE, collaborative accuracy),
  labels with scores (AUROC, AUPR, Brier), a tensor of values or a scalar (means).
\<close>

datatype metric_update =
    LabelsPreds "real list" "nat list"
  | LabelsProbs "real list" "real list list"
  | LabelsScores "real list" "real list"
  | Values "real list"
  | Scalar real

text \<open>\<^verbatim>\<open>tf.cast(labels > FLAGS.ece_label_threshold, tf.float32)\<close>\<close>

definition ece_labels_of :: "real \<Rightarrow> real list \<Rightarrow> real list" where
  "ece_labels_of ece_label_threshold labels =
     map (\<lambda>l. if l > ece_label_threshold then 1 else 0) labels"

text \<open>\<^verbatim>\<open>tf.concat([1. - probs, probs], axis=1)\<close>: one row of two classes per example.\<close>

definition ece_probs_of :: "real list \<Rightarrow> real list list" where
  "ece_probs_of probs = map (\<lambda>p. [1 - p, p]) probs"

definition pred_labels_of :: "real list list \<Rightarrow> nat list" where
  "pred_labels_of ece_probs = map argmax ece_probs"

text \<open>Lines 435-451 of \<^verbatim>\<open>train_step\<close>: the mean loss of the batch by loss type.\<close>

definition train_negative_log_likelihood :: "loss_type \<Rightarrow> real list \<Rightarrow> real list \<Rightarrow> real" where
  "train_negative_log_likelihood lt labels loss_logits =
     (case lt of
        cross_entropy \<Rightarrow> reduce_mean (sigmoid_cross_entropy_with_logits labels loss_logits)
      | mse \<Rightarrow> reduce_mean (map2 (\<lambda>y p. (y - p)\<^sup>2) labels (map sigmoid loss_logits))
      | mae \<Rightarrow> reduce_mean (map2 (\<lambda>y p. \<bar>y - p\<bar>) labels (map sigmoid loss_logits)))"

text \<open>Lines 453-454: \<^verbatim>\<open>l2_loss = sum(model.losses); loss = negative_log_likelihood + l2_loss\<close>.\<close>

definition train_loss :: "loss_type \<Rightarrow> real list \<Rightarrow> real list \<Rightarrow> real list \<Rightarrow> real" where
  "train_loss lt labels logits model_losses =
     train_negative_log_likelihood lt labels logits + sum_list model_losses"

text \<open>Line 456: \<^verbatim>\<open>scaled_loss = loss / strategy.num_replicas_in_sync\<close>.\<close>

definition scaled_loss :: "nat \<Rightarrow> loss_type \<Rightarrow> real list \<Rightarrow> real list \<Rightarrow> real list \<Rightarrow> real" where
  "scaled_loss num_replicas_in_sync lt labels logits model_losses =
     train_loss lt labels logits model_losses / real num_replicas_in_sync"

text \<open>
  The cross-replica reduction sums what the replicas contribute. \<open>replicas\<close>
  holds the labels, logits and model losses of each replica, and
  \<^verbatim>\<open>strategy.num_replicas_in_sync\<close> is their number.
\<close>

definition reduced_scaled_loss ::
  "loss_type \<Rightarrow> (real list \<times> real list \<times> real list) list \<Rightarrow> real" where
  "reduced_scaled_loss lt replicas =
     sum_list (map (\<lambda>(labels, logits, model_losses).
                      scaled_loss (length replicas) lt labels logits model_losses)
                 replicas)"

text \<open>Lines 461-471: the four metric updates of a training step, in order.\<close>

definition train_step_metric_updates ::
  "real \<Rightarrow> loss_type \<Rightarrow> real list \<Rightarrow> real list \<Rightarrow> real list \<Rightarrow> (string \<times> metric_update) list"
where
  "train_step_metric_updates ece_label_threshold lt labels logits model_losses =
     (let probs = map sigmoid logits;
          ece_labels = ece_labels_of ece_label_threshold labels;
          ece_probs = ece_probs_of probs;
          pred_labels = pred_labels_of ece_probs
      in [(''train/accuracy'', LabelsPreds labels pred_labels),
          (''train/ece'', LabelsProbs ece_labels ece_probs),
          (''train/loss'', Scalar (train_loss lt labels logits model_losses)),
          (''train/negative_log_likelihood'',
             Scalar (train_negative_log_likelihood lt labels logits))])"

text \<open>
  Lines 519-526 of \<^verbatim>\<open>test_step\<close>: \<open>logits_list\<close> has one row of calibrated
  logits per Monte-Carlo sample, and the labels are broadcast to every row.
\<close>

definition test_negative_log_likelihood :: "nat \<Rightarrow> real list \<Rightarrow> real list list \<Rightarrow> real" where
  "test_negative_log_likelihood num_mc_samples labels logits_list =
     (let ce = map (sigmoid_cross_entropy_with_logits labels) logits_list;
          negative_log_likelihood =
            map (\<lambda>v. - v + ln (real num_mc_samples))
              (reduce_logsumexp_axis0 (map (map uminus) ce))
      in reduce_mean negative_log_likelihood)"

text \<open>The name of a test metric: \<^verbatim>\<open>'test/nll'\<close> for \<^verbatim>\<open>'ind'\<close>, \<^verbatim>\<open>'test/nll_{}'\<close> otherwise.\<close>

definition test_metric_name :: "string \<Rightarrow> string \<Rightarrow> string" where
  "test_metric_name base dataset_name =
     (if dataset_name = ''ind'' then base else base @ ''_'' @ dataset_name)"

text \<open>
  Lines 483-557 of \<^verbatim>\<open>test_step\<close>: the metric updates of an evaluation step, in
  order. The model is deterministic, so each of the \<open>num_mc_samples\<close> forward
  passes returns the same \<open>out\<close>.
\<close>

definition test_step_metric_updates ::
  "nat \<Rightarrow> real \<Rightarrow> nat \<Rightarrow> real \<Rightarrow> string list \<Rightarrow> string \<Rightarrow> real list \<Rightarrow> model_output
     \<Rightarrow> (string \<times> metric_update) list"
where
  "test_step_metric_updates test_batch_size gp_mean_field_factor num_mc_samples
       ece_label_threshold fractions dataset_name labels out =
     (let samples = replicate num_mc_samples
                      (test_step_sample test_batch_size gp_mean_field_factor out);
          logits_list = map fst samples;
          stddev_list = map snd samples;
          stddev = reduce_mean_axis0 stddev_list;
          probs_list = map (map sigmoid) logits_list;
          probs = reduce_mean_axis0 probs_list;
          ece_labels = ece_labels_of ece_label_threshold labels;
          ece_probs = ece_probs_of probs;
          pred_labels = pred_labels_of ece_probs;
          auc_probs = probs;
          negative_log_likelihood =
            test_negative_log_likelihood num_mc_samples labels logits_list
      in [(test_metric_name ''test/nll'' dataset_name, Scalar negative_log_likelihood),
          (test_metric_name ''test/auroc'' dataset_name, LabelsScores labels auc_probs),
          (test_metric_name ''test/aupr'' dataset_name, LabelsScores labels auc_probs),
          (test_metric_name ''test/brier'' dataset_name, LabelsScores labels auc_probs),
          (test_metric_name ''test/ece'' dataset_name, LabelsProbs ece_labels ece_probs),
          (test_metric_name ''test/stddev'' dataset_name, Values stddev),
          (test_metric_name ''test/acc'' dataset_name, LabelsPreds ece_labels pred_labels)]
         @ map (\<lambda>fraction.
                  (test_metric_name (''test_collab_acc/collab_acc_'' @ fraction) dataset_name,
                   LabelsProbs ece_labels ece_probs))
             fractions)"

text \<open>
  What \<^verbatim>\<open>tf.keras.metrics.Accuracy\<close> counts in one update: the positions where
  the label equals the predicted class.
\<close>

fun accuracy_matches :: "metric_update \<Rightarrow> nat" where
  "accuracy_matches (LabelsPreds y_true y_pred) =
     length (filter (\<lambda>(y, p). y = real p) (zip y_true y_pred))"
| "accuracy_matches _ = 0"

subsection \<open>Restoring a checkpoint or loading the pretrained encoder\<close>

text \<open>
  The variables tracked by \<^verbatim>\<open>tf.train.Checkpoint(model=model, optimizer=optimizer)\<close>:
  the encoder's weights, the remaining weights of the model, the optimizer's
  slots and its step counter \<^verbatim>\<open>optimizer.iterations\<close>.
\<close>

record ('enc, 'w, 'o) training_variables =
  bert_encoder :: 'enc
  head_weights :: 'w
  optimizer_slots :: 'o
  iterations :: int

text \<open>
  \<^verbatim>\<open>tf.train.latest_checkpoint(dir)\<close> over a store that maps a directory to the
  content of its latest checkpoint: \<^verbatim>\<open>None\<close> when the directory holds none.
  No directory at all can only be \<^verbatim>\<open>eval_checkpoint_dir\<close> in prediction mode,
  which the flag validator excludes before \<^verbatim>\<open>main\<close> runs.
\<close>

definition latest_checkpoint ::
  "(string \<rightharpoonup> 'c) \<Rightarrow> string option \<Rightarrow> 'c option" where
  "latest_checkpoint store dir = (case dir of None \<Rightarrow> None | Some d \<Rightarrow> store d)"

text \<open>
  Lines 354-372 of \<^verbatim>\<open>main\<close>. \<^verbatim>\<open>checkpoint.restore\<close> gives every tracked variable
  the value saved in the checkpoint. \<^verbatim>\<open>bert_utils.load_bert_weight_from_ckpt\<close> is
  a function of a local module that is not part of the source file; it is the
  parameter \<open>load_bert_weight_from_ckpt\<close>, applied to the encoder only, as in
  the source. The result is the variables and \<^verbatim>\<open>initial_epoch\<close>. The step
  counter is read as a NumPy integer, whose floor division by 0 is 0 (with a
  warning), as \<open>div\<close> is.
\<close>

definition restore_or_load_pretrained ::
  "'a flags_scheme \<Rightarrow> (string \<rightharpoonup> ('enc, 'w, 'o) training_variables)
     \<Rightarrow> ('enc \<Rightarrow> string option \<Rightarrow> 'enc) \<Rightarrow> string option \<Rightarrow> int
     \<Rightarrow> ('enc, 'w, 'o) training_variables
     \<Rightarrow> ('enc, 'w, 'o) training_variables \<times> int"
where
  "restore_or_load_pretrained fl store load_bert_weight_from_ckpt bert_ckpt_dir
       steps_per_epoch vars =
     (let latest =
            (if prediction_mode fl
             then latest_checkpoint store (eval_checkpoint_dir fl)
             else latest_checkpoint store (Some (output_dir fl)))
      in case latest of
           Some saved \<Rightarrow> (saved, iterations saved div steps_per_epoch)
         | None \<Rightarrow>
             (vars\<lparr>bert_encoder :=
                      load_bert_weight_from_ckpt (bert_encoder vars) bert_ckpt_dir\<rparr>, 0))"

subsection \<open>Metric accumulators\<close>

text \<open>
  The dict \<^verbatim>\<open>metrics\<close> in insertion order. An accumulator is represented by the
  arguments of the \<^verbatim>\<open>update_state\<close> calls it has received since its last
  \<^verbatim>\<open>reset_states\<close>; its \<^verbatim>\<open>result()\<close> is a function of them.
\<close>

type_synonym 'u metrics = "(string \<times> 'u list) list"

text \<open>\<^verbatim>\<open>metrics[name].update_state(u)\<close>; a name that is not in the dict is a \<^verbatim>\<open>KeyError\<close>.\<close>

fun update_state :: "string \<Rightarrow> 'u \<Rightarrow> 'u metrics \<Rightarrow> error + 'u metrics" where
  "update_state name u [] = Inl (KeyError name)"
| "update_state name u ((n, h) # ms) =
     (if n = name then Inr ((n, h @ [u]) # ms)
      else (case update_state name u ms of
              Inl e \<Rightarrow> Inl e
            | Inr ms' \<Rightarrow> Inr ((n, h) # ms')))"

fun update_states :: "(string \<times> 'u) list \<Rightarrow> 'u metrics \<Rightarrow> error + 'u metrics" where
  "update_states [] ms = Inr ms"
| "update_states ((name, u) # ups) ms =
     (case update_state name u ms of
        Inl e \<Rightarrow> Inl e
      | Inr ms' \<Rightarrow> update_states ups ms')"

text \<open>\<^verbatim>\<open>for metric in metrics.values(): metric.reset_states()\<close>\<close>

definition reset_states :: "'u metrics \<Rightarrow> 'u metrics" where
  "reset_states ms = map (\<lambda>(n, h). (n, [])) ms"

subsection \<open>The training loop\<close>

text \<open>
  The state that the loops of \<^verbatim>\<open>main\<close> change: the variables of model and
  optimizer, the batches that the training iterator has not yet returned, the
  metric accumulators, the scalars written to the summary writer (name, value,
  step) and the checkpoints saved. Log messages are not modelled.
\<close>

record ('m, 'b, 'u, 'r) run_state =
  model :: 'm
  train_iterator :: "'b list"
  metrics :: "'u metrics"
  summaries :: "(string \<times> 'r \<times> int) list"
  checkpoints :: "'m list"

text \<open>
  The flags and the values computed before the loops, and the three parts that
  work on tensors: the per-replica step functions (the new variables and the
  metric updates of a batch) and \<^verbatim>\<open>result()\<close> of an accumulator.
\<close>

record ('m, 'b, 'u, 'r) env =
  steps_per_epoch :: int
  train_epochs :: int
  evaluation_interval :: int
  checkpoint_interval :: int
  test_datasets :: "(string \<times> 'b list) list"
  steps_per_eval :: "string \<Rightarrow> int"
  train_step_fn :: "'m \<Rightarrow> 'b \<Rightarrow> 'm \<times> (string \<times> 'u) list"
  test_step_fn :: "'m \<Rightarrow> string \<Rightarrow> 'b \<Rightarrow> (string \<times> 'u) list"
  metric_result :: "string \<Rightarrow> 'u list \<Rightarrow> 'r"

text \<open>
  \<^verbatim>\<open>train_step(iterator)\<close>: \<^verbatim>\<open>next(iterator)\<close> raises \<^verbatim>\<open>OutOfRangeError\<close> on an
  exhausted iterator; nothing in \<^verbatim>\<open>train_step\<close> or around its call catches it.
\<close>

definition train_step ::
  "('m, 'b, 'u, 'r) env \<Rightarrow> ('m, 'b, 'u, 'r) run_state \<Rightarrow> error + ('m, 'b, 'u, 'r) run_state"
where
  "train_step e s =
     (case train_iterator s of
        [] \<Rightarrow> Inl OutOfRangeError
      | inputs # rest \<Rightarrow>
          (let (m', ups) = train_step_fn e (model s) inputs
           in case update_states ups (metrics s) of
                Inl err \<Rightarrow> Inl err
              | Inr ms \<Rightarrow> Inr (s\<lparr>model := m', train_iterator := rest, metrics := ms\<rparr>)))"

text \<open>\<^verbatim>\<open>for step in range(steps_per_epoch): train_step(train_iterator)\<close>\<close>

fun train_steps ::
  "('m, 'b, 'u, 'r) env \<Rightarrow> nat \<Rightarrow> ('m, 'b, 'u, 'r) run_state
     \<Rightarrow> error + ('m, 'b, 'u, 'r) run_state"
where
  "train_steps e 0 s = Inr s"
| "train_steps e (Suc n) s =
     (case train_step e s of
        Inl err \<Rightarrow> Inl err
      | Inr s' \<Rightarrow> train_steps e n s')"

text \<open>
  \<^verbatim>\<open>test_step(test_iterator, dataset_name)\<close> in the training-mode evaluation loop
  (line 700), on the iterator of the test dataset; the call is not inside a
  \<^verbatim>\<open>try\<close>.
\<close>

definition test_step ::
  "('m, 'b, 'u, 'r) env \<Rightarrow> string \<Rightarrow> 'b list \<times> ('m, 'b, 'u, 'r) run_state
     \<Rightarrow> error + ('b list \<times> ('m, 'b, 'u, 'r) run_state)"
where
  "test_step e dataset_name its =
     (case fst its of
        [] \<Rightarrow> Inl OutOfRangeError
      | inputs # rest \<Rightarrow>
          (case update_states (test_step_fn e (model (snd its)) dataset_name inputs)
                  (metrics (snd its)) of
             Inl err \<Rightarrow> Inl err
           | Inr ms \<Rightarrow> Inr (rest, (snd its)\<lparr>metrics := ms\<rparr>)))"

text \<open>\<^verbatim>\<open>for step in range(steps_per_eval[dataset_name]): test_step(...)\<close>\<close>

fun test_steps ::
  "('m, 'b, 'u, 'r) env \<Rightarrow> string \<Rightarrow> nat \<Rightarrow> 'b list \<times> ('m, 'b, 'u, 'r) run_state
     \<Rightarrow> error + ('b list \<times> ('m, 'b, 'u, 'r) run_state)"
where
  "test_steps e dataset_name 0 its = Inr its"
| "test_steps e dataset_name (Suc n) its =
     (case test_step e dataset_name its of
        Inl err \<Rightarrow> Inl err
      | Inr its' \<Rightarrow> test_steps e dataset_name n its')"

text \<open>
  \<^verbatim>\<open>for dataset_name, test_dataset in test_datasets.items()\<close>: a fresh iterator
  on each dataset, then its evaluation steps.
\<close>

fun evaluate_datasets ::
  "('m, 'b, 'u, 'r) env \<Rightarrow> (string \<times> 'b list) list \<Rightarrow> ('m, 'b, 'u, 'r) run_state
     \<Rightarrow> error + ('m, 'b, 'u, 'r) run_state"
where
  "evaluate_datasets e [] s = Inr s"
| "evaluate_datasets e ((dataset_name, test_dataset) # rest) s =
     (case test_steps e dataset_name (nat (steps_per_eval e dataset_name)) (test_dataset, s) of
        Inl err \<Rightarrow> Inl err
      | Inr (it, s') \<Rightarrow> evaluate_datasets e rest s')"

text \<open>
  Lines 708-713: \<^verbatim>\<open>result()\<close> of every accumulator, written as a scalar at
  \<^verbatim>\<open>step=epoch + 1\<close>.
\<close>

definition write_summaries ::
  "('m, 'b, 'u, 'r) env \<Rightarrow> int \<Rightarrow> ('m, 'b, 'u, 'r) run_state \<Rightarrow> ('m, 'b, 'u, 'r) run_state"
where
  "write_summaries e epoch s =
     s\<lparr>summaries := summaries s
          @ map (\<lambda>(name, h). (name, metric_result e name h, epoch + 1)) (metrics s)\<rparr>"

text \<open>
  Lines 692-713, the part of an epoch under
  \<^verbatim>\<open>if epoch % FLAGS.evaluation_interval == 0\<close>; the remainder by zero raises.
\<close>

definition evaluation_phase ::
  "('m, 'b, 'u, 'r) env \<Rightarrow> int \<Rightarrow> ('m, 'b, 'u, 'r) run_state
     \<Rightarrow> error + ('m, 'b, 'u, 'r) run_state"
where
  "evaluation_phase e epoch s =
     (if evaluation_interval e = 0 then Inl ZeroDivisionError
      else if epoch mod evaluation_interval e = 0 then
        (case evaluate_datasets e (test_datasets e) s of
           Inl err \<Rightarrow> Inl err
         | Inr s' \<Rightarrow> Inr (write_summaries e epoch s'))
      else Inr s)"

text \<open>Lines 718-722: \<^verbatim>\<open>checkpoint.save\<close> on the configured interval.\<close>

definition checkpoint_phase ::
  "('m, 'b, 'u, 'r) env \<Rightarrow> int \<Rightarrow> ('m, 'b, 'u, 'r) run_state \<Rightarrow> ('m, 'b, 'u, 'r) run_state"
where
  "checkpoint_phase e epoch s =
     (if checkpoint_interval e > 0 \<and> (epoch + 1) mod checkpoint_interval e = 0
      then s\<lparr>checkpoints := checkpoints s @ [model s]\<rparr>
      else s)"

text \<open>The body of \<^verbatim>\<open>for epoch in range(initial_epoch, FLAGS.train_epochs)\<close>.\<close>

definition run_epoch ::
  "('m, 'b, 'u, 'r) env \<Rightarrow> int \<Rightarrow> ('m, 'b, 'u, 'r) run_state
     \<Rightarrow> error + ('m, 'b, 'u, 'r) run_state"
where
  "run_epoch e epoch s =
     (case train_steps e (nat (steps_per_epoch e)) s of
        Inl err \<Rightarrow> Inl err
      | Inr s1 \<Rightarrow>
          (case evaluation_phase e epoch s1 of
             Inl err \<Rightarrow> Inl err
           | Inr s2 \<Rightarrow>
               Inr (checkpoint_phase e epoch (s2\<lparr>metrics := reset_states (metrics s2)\<rparr>))))"

fun run_epochs ::
  "('m, 'b, 'u, 'r) env \<Rightarrow> int list \<Rightarrow> ('m, 'b, 'u, 'r) run_state
     \<Rightarrow> error + ('m, 'b, 'u, 'r) run_state"
where
  "run_epochs e [] s = Inr s"
| "run_epochs e (epoch # epochs) s =
     (case run_epoch e epoch s of
        Inl err \<Rightarrow> Inl err
      | Inr s' \<Rightarrow> run_epochs e epochs s')"

text \<open>The training branch of \<^verbatim>\<open>main\<close> (lines 673-722).\<close>

definition training_loop ::
  "('m, 'b, 'u, 'r) env \<Rightarrow> int \<Rightarrow> ('m, 'b, 'u, 'r) run_state
     \<Rightarrow> error + ('m, 'b, 'u, 'r) run_state"
where
  "training_loop e initial_epoch s = run_epochs e [initial_epoch..train_epochs e - 1] s"

subsection \<open>The evaluation pass of prediction mode\<close>

text \<open>
  \<^verbatim>\<open>final_eval_step(test_iterator)\<close>: the next batch through the per-replica
  step function \<open>step_fn\<close>, or \<^verbatim>\<open>OutOfRangeError\<close> from \<^verbatim>\<open>next\<close>.
\<close>

definition final_eval_step :: "('b \<Rightarrow> 'p) \<Rightarrow> 'b list \<Rightarrow> error + ('p \<times> 'b list)" where
  "final_eval_step step_fn test_iterator =
     (case test_iterator of
        [] \<Rightarrow> Inl OutOfRangeError
      | inputs # rest \<Rightarrow> Inr (step_fn inputs, rest))"

text \<open>
  Lines 625-643: \<^verbatim>\<open>for step in range(steps_per_eval[dataset_name])\<close> with
  \<^verbatim>\<open>except tf.errors.OutOfRangeError: continue\<close> around the step; any other
  exception leaves the loop. \<open>collected\<close> is what has been appended to the
  \<^verbatim>\<open>*_all\<close> lists so far; the result also holds the iterator.
\<close>

fun prediction_pass ::
  "('b \<Rightarrow> 'p) \<Rightarrow> nat \<Rightarrow> 'b list \<Rightarrow> 'p list \<Rightarrow> error + ('p list \<times> 'b list)" where
  "prediction_pass step_fn 0 test_iterator collected = Inr (collected, test_iterator)"
| "prediction_pass step_fn (Suc n) test_iterator collected =
     (case final_eval_step step_fn test_iterator of
        Inl err \<Rightarrow>
          (if err = OutOfRangeError
           then prediction_pass step_fn n test_iterator collected
           else Inl err)
      | Inr (p, rest) \<Rightarrow> prediction_pass step_fn n rest (collected @ [p]))"

subsection \<open>A small run\<close>

text \<open>
  A training run over batches that are numbers: a step adds the batch to the
  single model variable and reports it to \<^verbatim>\<open>train/loss\<close>; an evaluation step
  reports the batch to \<^verbatim>\<open>test/nll\<close>; the result of an accumulator is the sum of
  what it received.
\<close>

definition demo_train_step_fn :: "nat \<Rightarrow> nat \<Rightarrow> nat \<times> (string \<times> nat) list" where
  "demo_train_step_fn m inputs = (m + inputs, [(''train/loss'', inputs)])"

definition demo_test_step_fn :: "nat \<Rightarrow> string \<Rightarrow> nat \<Rightarrow> (string \<times> nat) list" where
  "demo_test_step_fn m dataset_name inputs = [(''test/nll'', inputs)]"

definition demo_steps_per_eval :: "string \<Rightarrow> int" where
  "demo_steps_per_eval dataset_name = 1"

definition demo_metric_result :: "string \<Rightarrow> nat list \<Rightarrow> nat" where
  "demo_metric_result name h = sum_list h"

definition demo_env :: "int \<Rightarrow> (nat, nat, nat, nat) env" where
  "demo_env interval =
     \<lparr>steps_per_epoch = 2, train_epochs = 3, evaluation_interval = interval,
      checkpoint_interval = 3, test_datasets = [(''ind'', [7])],
      steps_per_eval = demo_steps_per_eval,
      train_step_fn = demo_train_step_fn, test_step_fn = demo_test_step_fn,
      metric_result = demo_metric_result\<rparr>"

definition demo_state :: "nat list \<Rightarrow> (nat, nat, nat, nat) run_state" where
  "demo_state batches =
     \<lparr>model = 0, train_iterator = batches,
      metrics = [(''train/loss'', []), (''test/nll'', [])],
      summaries = [], checkpoints = []\<rparr>"

text \<open>A stand-in for loading the pretrained encoder: it marks the encoder.\<close>

definition demo_load_bert :: "nat \<Rightarrow> string option \<Rightarrow> nat" where
  "demo_load_bert enc bert_ckpt_dir = Suc enc"

definition demo_flags :: "bool \<Rightarrow> flags" where
  "demo_flags predict =
     \<lparr>prediction_mode = predict, eval_checkpoint_dir = Some ''/ckpt'',
      output_dir = ''/tmp/toxic_comments''\<rparr>"

definition demo_variables :: "int \<Rightarrow> (nat, nat, nat) training_variables" where
  "demo_variables its =
     \<lparr>bert_encoder = 10, head_weights = 20, optimizer_slots = 30, iterations = its\<rparr>"

section \<open>Properties\<close>

subsection \<open>Resolving the BERT paths\<close>

text \<open>
  Claim C8. \<^verbatim>\<open>resolve_bert_ckpt_and_config_dir\<close> raises (and then it is the
  \<^verbatim>\<open>ValueError\<close> about \<^verbatim>\<open>bert_dir\<close>) exactly when one of \<^verbatim>\<open>bert_ckpt_dir\<close>,
  \<^verbatim>\<open>bert_config_dir\<close> is empty and \<^verbatim>\<open>bert_dir\<close> is empty too. When both
  directories are given they are returned unchanged, whatever \<^verbatim>\<open>bert_dir\<close> is.
  When one is missing and \<^verbatim>\<open>bert_dir\<close> is not empty, a missing config path
  becomes \<^verbatim>\<open>bert_dir\<close> joined with \<^verbatim>\<open>bert_config.json\<close>, a missing checkpoint
  path becomes \<^verbatim>\<open>bert_dir\<close> joined with \<^verbatim>\<open>bert_model.ckpt\<close>, and a path that was
  given stays as it is.
\<close>

theorem resolve_bert_ckpt_and_config_dir_spec:
  "((\<exists>e. resolve_bert_ckpt_and_config_dir d c k = Inl e) \<longleftrightarrow> (falsy k \<or> falsy c) \<and> falsy d)
   \<and> (\<forall>e. resolve_bert_ckpt_and_config_dir d c k = Inl e \<longrightarrow>
            e = ValueError ''bert_dir cannot be empty.'')
   \<and> (\<not> falsy k \<and> \<not> falsy c \<longrightarrow> resolve_bert_ckpt_and_config_dir d c k = Inr (c, k))
   \<and> (\<forall>dir. (falsy k \<or> falsy c) \<and> d = Some dir \<and> dir \<noteq> [] \<longrightarrow>
        resolve_bert_ckpt_and_config_dir d c k =
          Inr (if falsy c then Some (os_path_join dir ''bert_config.json'') else c,
               if falsy k then Some (os_path_join dir ''bert_model.ckpt'') else k))"
  by (cases d) (auto simp: resolve_bert_ckpt_and_config_dir_def Let_def)

theorem resolve_bert_ckpt_and_config_dir_witness:
  "resolve_bert_ckpt_and_config_dir (Some ''/data/bert'') None (Some ''/x/m.ckpt'')
     = Inr (Some ''/data/bert/bert_config.json'', Some ''/x/m.ckpt'')
   \<and> resolve_bert_ckpt_and_config_dir (Some ''/data/bert/'') (Some ''/y/c.json'') (Some '''')
     = Inr (Some ''/y/c.json'', Some ''/data/bert/bert_model.ckpt'')
   \<and> resolve_bert_ckpt_and_config_dir None (Some ''/y/c.json'') (Some ''/x/m.ckpt'')
     = Inr (Some ''/y/c.json'', Some ''/x/m.ckpt'')
   \<and> (\<exists>e. resolve_bert_ckpt_and_config_dir (Some '''') (Some ''/y/c.json'') None = Inl e)"
  using resolve_bert_ckpt_and_config_dir_spec
          [of "Some ''/data/bert''" None "Some ''/x/m.ckpt''"]
        resolve_bert_ckpt_and_config_dir_spec
          [of "Some ''/data/bert/''" "Some ''/y/c.json''" "Some ''''"]
        resolve_bert_ckpt_and_config_dir_spec
          [of None "Some ''/y/c.json''" "Some ''/x/m.ckpt''"]
        resolve_bert_ckpt_and_config_dir_spec
          [of "Some ''''" "Some ''/y/c.json''" None]
  by (simp add: os_path_join_def)

subsection \<open>Validation of the prediction-mode flags\<close>

text \<open>
  Claim C6. The validator fails exactly when \<^verbatim>\<open>prediction_mode\<close> is set and
  \<^verbatim>\<open>eval_checkpoint_dir\<close> was not given (is \<^verbatim>\<open>None\<close>); the start-up then stops
  with the validator's message and \<^verbatim>\<open>main\<close> is never called. With
  \<^verbatim>\<open>prediction_mode\<close> false, or with \<^verbatim>\<open>prediction_mode\<close> true and a non-empty
  \<^verbatim>\<open>eval_checkpoint_dir\<close>, the validation passes and \<^verbatim>\<open>main\<close> runs.
\<close>

theorem check_checkpoint_dir_for_prediction_mode_spec:
  "(check_checkpoint_dir_for_prediction_mode fl \<longleftrightarrow>
      \<not> (prediction_mode fl \<and> eval_checkpoint_dir fl = None))
   \<and> (prediction_mode fl \<and> eval_checkpoint_dir fl = None \<longrightarrow>
        \<not> check_checkpoint_dir_for_prediction_mode fl
        \<and> app_run main fl =
            Inl (IllegalFlagValueError
                   ''`eval_checkpoint_dir` should be provided in prediction mode''))
   \<and> (\<not> prediction_mode fl \<longrightarrow>
        check_checkpoint_dir_for_prediction_mode fl \<and> app_run main fl = Inr (main fl))
   \<and> (\<forall>d. prediction_mode fl \<and> eval_checkpoint_dir fl = Some d \<and> d \<noteq> [] \<longrightarrow>
        check_checkpoint_dir_for_prediction_mode fl \<and> app_run main fl = Inr (main fl))"
  by (auto simp: check_checkpoint_dir_for_prediction_mode_def app_run_def)

theorem check_checkpoint_dir_for_prediction_mode_witness:
  "app_run output_dir
     \<lparr>prediction_mode = True, eval_checkpoint_dir = None, output_dir = ''/tmp/toxic_comments''\<rparr>
     = Inl (IllegalFlagValueError
              ''`eval_checkpoint_dir` should be provided in prediction mode'')
   \<and> app_run output_dir
     \<lparr>prediction_mode = False, eval_checkpoint_dir = None, output_dir = ''/tmp/toxic_comments''\<rparr>
     = Inr ''/tmp/toxic_comments''
   \<and> app_run output_dir
     \<lparr>prediction_mode = True, eval_checkpoint_dir = Some ''/ckpt'',
      output_dir = ''/tmp/toxic_comments''\<rparr>
     = Inr ''/tmp/toxic_comments''"
  using check_checkpoint_dir_for_prediction_mode_spec
          [of "\<lparr>prediction_mode = True, eval_checkpoint_dir = None,
                output_dir = ''/tmp/toxic_comments''\<rparr>" output_dir]
        check_checkpoint_dir_for_prediction_mode_spec
          [of "\<lparr>prediction_mode = False, eval_checkpoint_dir = None,
                output_dir = ''/tmp/toxic_comments''\<rparr>" output_dir]
        check_checkpoint_dir_for_prediction_mode_spec
          [of "\<lparr>prediction_mode = True, eval_checkpoint_dir = Some ''/ckpt'',
                output_dir = ''/tmp/toxic_comments''\<rparr>" output_dir]
  by simp

subsection \<open>Features and labels\<close>

lemma add_additional_label_apply:
  "add_additional_label inputs l acc k =
     (if k = l \<and> inputs l \<noteq> None then inputs l else acc k)"
  by (cases "inputs l") (auto simp: add_additional_label_def)

lemma fold_add_additional_label:
  "fold (add_additional_label inputs) ls acc k =
     (if k \<in> set ls \<and> inputs k \<noteq> None then inputs k else acc k)"
proof (induction ls arbitrary: acc)
  case Nil
  then show ?case by simp
next
  case (Cons l ls)
  have "fold (add_additional_label inputs) (l # ls) acc k =
        fold (add_additional_label inputs) ls (add_additional_label inputs l acc) k"
    by simp
  also have "\<dots> = (if k \<in> set ls \<and> inputs k \<noteq> None then inputs k
                     else add_additional_label inputs l acc k)"
    by (rule Cons.IH)
  also have "\<dots> = (if k \<in> set (l # ls) \<and> inputs k \<noteq> None then inputs k else acc k)"
    by (auto simp: add_additional_label_apply)
  finally show ?case .
qed

lemma additional_labels_restrict:
  "fold (add_additional_label inputs) ls Map.empty = inputs |` set ls"
  by (auto simp: fold_add_additional_label restrict_map_def fun_eq_iff)

lemma additional_labels_cong:
  assumes "\<forall>k \<in> set ls. inputs' k = inputs k"
  shows "fold (add_additional_label inputs') ls Map.empty
       = fold (add_additional_label inputs) ls Map.empty"
  using assms by (auto simp: fold_add_additional_label fun_eq_iff)

text \<open>
  Claim C9. \<^verbatim>\<open>_IDENTITY_LABELS\<close> has 24 entries. For a batch that holds the four
  fields \<^verbatim>\<open>input_ids\<close>, \<^verbatim>\<open>input_mask\<close>, \<^verbatim>\<open>segment_ids\<close> and \<^verbatim>\<open>labels\<close>,
  \<^verbatim>\<open>create_feature_and_label\<close> returns these four values unchanged and a dict
  whose keys are exactly the identity labels that are keys of the batch, each
  with the value it has in the batch. No other field is read: two batches that
  agree on the four fields and on the identity labels give the same result.
\<close>

theorem create_feature_and_label_spec:
  "length IDENTITY_LABELS = 24
   \<and> (inputs ''input_ids'' = Some ids \<and> inputs ''input_mask'' = Some msk
        \<and> inputs ''segment_ids'' = Some seg \<and> inputs ''labels'' = Some lab \<longrightarrow>
      (\<exists>al. create_feature_and_label inputs = Inr ([ids, msk, seg], lab, al)
            \<and> dom al = dom inputs \<inter> set IDENTITY_LABELS
            \<and> (\<forall>k \<in> dom al. al k = inputs k)))
   \<and> ((\<forall>k \<in> {''input_ids'', ''input_mask'', ''segment_ids'', ''labels''}
              \<union> set IDENTITY_LABELS. inputs' k = inputs k) \<longrightarrow>
        create_feature_and_label inputs' = create_feature_and_label inputs)"
proof (intro conjI impI)
  show "length IDENTITY_LABELS = 24"
    by (simp add: IDENTITY_LABELS_def)
next
  assume a: "inputs ''input_ids'' = Some ids \<and> inputs ''input_mask'' = Some msk
        \<and> inputs ''segment_ids'' = Some seg \<and> inputs ''labels'' = Some lab"
  let ?al = "inputs |` set IDENTITY_LABELS"
  have "create_feature_and_label inputs = Inr ([ids, msk, seg], lab, ?al)"
    using a by (simp add: create_feature_and_label_def getitem_def additional_labels_restrict)
  moreover have "dom ?al = dom inputs \<inter> set IDENTITY_LABELS"
    by simp
  moreover have "\<forall>k \<in> dom ?al. ?al k = inputs k"
    by (auto simp: restrict_map_def split: if_splits)
  ultimately show "\<exists>al. create_feature_and_label inputs = Inr ([ids, msk, seg], lab, al)
            \<and> dom al = dom inputs \<inter> set IDENTITY_LABELS
            \<and> (\<forall>k \<in> dom al. al k = inputs k)"
    by blast
next
  assume b: "\<forall>k \<in> {''input_ids'', ''input_mask'', ''segment_ids'', ''labels''}
              \<union> set IDENTITY_LABELS. inputs' k = inputs k"
  then have "fold (add_additional_label inputs') IDENTITY_LABELS Map.empty
           = fold (add_additional_label inputs) IDENTITY_LABELS Map.empty"
    by (intro additional_labels_cong) blast
  moreover have "getitem inputs' ''input_ids'' = getitem inputs ''input_ids''"
    "getitem inputs' ''input_mask'' = getitem inputs ''input_mask''"
    "getitem inputs' ''segment_ids'' = getitem inputs ''segment_ids''"
    "getitem inputs' ''labels'' = getitem inputs ''labels''"
    using b by (simp_all add: getitem_def)
  ultimately show "create_feature_and_label inputs' = create_feature_and_label inputs"
    unfolding create_feature_and_label_def by (simp cong: sum.case_cong)
qed

theorem create_feature_and_label_witness:
  "(\<exists>al. create_feature_and_label
       [''input_ids'' \<mapsto> 1::nat, ''input_mask'' \<mapsto> 2, ''segment_ids'' \<mapsto> 3,
        ''labels'' \<mapsto> 4, ''male'' \<mapsto> 5, ''comment'' \<mapsto> 6]
      = Inr ([1, 2, 3], 4, al)
      \<and> al ''male'' = Some 5 \<and> al ''comment'' = None \<and> al ''labels'' = None)"
proof -
  let ?m = "[''input_ids'' \<mapsto> 1::nat, ''input_mask'' \<mapsto> 2, ''segment_ids'' \<mapsto> 3,
        ''labels'' \<mapsto> 4, ''male'' \<mapsto> 5, ''comment'' \<mapsto> 6]"
  have h: "?m ''input_ids'' = Some 1 \<and> ?m ''input_mask'' = Some 2
        \<and> ?m ''segment_ids'' = Some 3 \<and> ?m ''labels'' = Some 4"
    by simp
  from create_feature_and_label_spec [where inputs = ?m and ids = 1 and msk = 2 and seg = 3 and lab = 4] h
  obtain al where al: "create_feature_and_label ?m = Inr ([1, 2, 3], 4, al)"
    and d: "dom al = dom ?m \<inter> set IDENTITY_LABELS" and v: "\<forall>k \<in> dom al. al k = ?m k"
    by blast
  have in1: "''male'' \<in> set IDENTITY_LABELS"
    by (simp add: IDENTITY_LABELS_def)
  have out1: "''comment'' \<notin> set IDENTITY_LABELS" "''labels'' \<notin> set IDENTITY_LABELS"
    by (simp_all add: IDENTITY_LABELS_def)
  have "''male'' \<in> dom ?m" by simp
  with in1 d have m: "''male'' \<in> dom al" by blast
  from out1 d have n: "''comment'' \<notin> dom al" "''labels'' \<notin> dom al" by blast+
  from m v have "al ''male'' = ?m ''male''" by blast
  then have "al ''male'' = Some 5" by simp
  moreover from n have "al ''comment'' = None" "al ''labels'' = None" by (simp_all add: domIff)
  ultimately show ?thesis using al by blast
qed

subsection \<open>Negative log-likelihood of an evaluation batch\<close>

lemma transpose_single: "transpose [xs] = map (\<lambda>x. [x]) xs"
  by (induction xs) simp_all

lemma reduce_logsumexp_axis0_single: "reduce_logsumexp_axis0 [xs] = xs"
  by (simp add: reduce_logsumexp_axis0_def transpose_single o_def)

lemma reduce_mean_axis0_single: "reduce_mean_axis0 [xs] = xs"
  by (simp add: reduce_mean_axis0_def transpose_single o_def reduce_mean_def)

text \<open>
  Claim C1. The negative log-likelihood of an evaluation batch is, per example,
  minus the log-sum-exp over the Monte-Carlo samples of the negated
  cross-entropies plus \<open>ln num_mc_samples\<close>, averaged over the batch. With one
  sample it is the mean binary cross-entropy of the batch, as for the labels
  \<open>[1,0,1,0]\<close> with logits \<open>[2,-2,2,-2]\<close>, where it is \<open>ln (1 + exp (-2))\<close>.
\<close>

theorem test_negative_log_likelihood_spec:
  "test_negative_log_likelihood n labels logits_list =
     reduce_mean
       (map (\<lambda>ce_per_sample. - ln (sum_list (map (\<lambda>c. exp (- c)) ce_per_sample)) + ln (real n))
          (transpose (map (sigmoid_cross_entropy_with_logits labels) logits_list)))
   \<and> test_negative_log_likelihood 1 labels [logits] =
       reduce_mean (sigmoid_cross_entropy_with_logits labels logits)
   \<and> test_negative_log_likelihood 1 [1, 0, 1, 0] [[2, -2, 2, -2]] =
       reduce_mean (sigmoid_cross_entropy_with_logits [1, 0, 1, 0] [2, -2, 2, -2])
   \<and> test_negative_log_likelihood 1 [1, 0, 1, 0] [[2, -2, 2, -2]] = ln (1 + exp (- 2))"
proof (intro conjI)
  show "test_negative_log_likelihood n labels logits_list =
     reduce_mean
       (map (\<lambda>ce_per_sample. - ln (sum_list (map (\<lambda>c. exp (- c)) ce_per_sample)) + ln (real n))
          (transpose (map (sigmoid_cross_entropy_with_logits labels) logits_list)))"
    by (simp add: test_negative_log_likelihood_def reduce_logsumexp_axis0_def
        transpose_map_map o_def)
  show single: "test_negative_log_likelihood 1 labels [logits] =
       reduce_mean (sigmoid_cross_entropy_with_logits labels logits)" for labels logits
    by (simp add: test_negative_log_likelihood_def reduce_logsumexp_axis0_single o_def)
  show "test_negative_log_likelihood 1 [1, 0, 1, 0] [[2, -2, 2, -2]] =
       reduce_mean (sigmoid_cross_entropy_with_logits [1, 0, 1, 0] [2, -2, 2, -2])"
    by (rule single)
  have ce: "sigmoid_cross_entropy_with_logits [1, 0, 1, 0] [2, -2, 2, -2]
        = replicate 4 (ln (1 + exp (- 2)))"
    by (simp add: sigmoid_cross_entropy_with_logits_def numeral_eq_Suc)
  have "test_negative_log_likelihood 1 [1, 0, 1, 0] [[2, -2, 2, -2]] =
       reduce_mean (replicate 4 (ln (1 + exp (- 2))))"
    unfolding single ce ..
  also have "\<dots> = ln (1 + exp (- 2))"
    by (simp add: reduce_mean_def sum_list_replicate)
  finally show "test_negative_log_likelihood 1 [1, 0, 1, 0] [[2, -2, 2, -2]] = ln (1 + exp (- 2))" .
qed

subsection \<open>Identity covariance in baseline mode\<close>

lemma diag_part_eye: "diag_part (eye n) = replicate n 1"
  by (simp add: diag_part_def eye_def list_eq_iff_nth_eq)

lemma map2_replicate_right:
  "length xs = n \<Longrightarrow> map2 f xs (replicate n c) = map (\<lambda>x. f x c) xs"
  by (induction xs arbitrary: n) auto

lemma mean_field_logits_eye:
  "length logits = n \<Longrightarrow>
   mean_field_logits logits (eye n) f =
     (if f < 0 then logits else map (\<lambda>x. x / sqrt (1 + f)) logits)"
  by (simp add: mean_field_logits_def diag_part_eye map2_replicate_right)

lemma scaled_logits_unchanged_iff:
  assumes "0 < f"
  shows "map (\<lambda>x. x / sqrt (1 + f)) logits = logits \<longleftrightarrow> list_all (\<lambda>x. x = 0) logits"
proof -
  have s: "sqrt (1 + f) \<noteq> 1" "sqrt (1 + f) \<noteq> 0"
    using assms by (simp_all add: real_sqrt_eq_1_iff)
  have e: "x / sqrt (1 + f) = x \<longleftrightarrow> x = 0" for x :: real
    using s by (auto simp: field_simps)
  have "map (\<lambda>x. x / sqrt (1 + f)) logits = logits
        \<longleftrightarrow> map (\<lambda>x. x / sqrt (1 + f)) logits = map (\<lambda>x. x) logits"
    by simp
  also have "\<dots> \<longleftrightarrow> (\<forall>x \<in> set logits. x / sqrt (1 + f) = x)"
    by (rule map_eq_conv)
  also have "\<dots> \<longleftrightarrow> list_all (\<lambda>x. x = 0) logits"
    by (simp add: e list_all_iff)
  finally show ?thesis .
qed

text \<open>
  Claim C2, as stated, fails: with the identity covariance every variance is 1,
  so for the default factor \<open>1/10000\<close> the calibration divides the logit 1 by
  \<open>sqrt (1 + 1/10000)\<close>, and the logits are not unchanged.
\<close>

theorem baseline_identity_covariance_counterexample:
  "final_eval_step_logits 1 (1 / 10000) (Logits [1]) \<noteq> [1]
   \<and> fst (test_step_sample 1 (1 / 10000) (Logits [1])) \<noteq> [1]"
proof -
  have "mean_field_logits [1] (eye 1) (1 / 10000) = [1 / sqrt (1 + 1 / 10000)]"
    using mean_field_logits_eye [of "[1]" 1 "1 / 10000"] by simp
  moreover have "sqrt (1 + 1 / 10000) \<noteq> 1"
    by (simp add: real_sqrt_eq_1_iff)
  ultimately show ?thesis
    by (simp add: final_eval_step_logits_def test_step_sample_def logits_and_covmat_def)
qed

text \<open>
  Claim C2, amended. In baseline mode (bare logits) the covariance substituted
  is the identity matrix of size \<^verbatim>\<open>test_batch_size\<close>, in \<^verbatim>\<open>test_step\<close> and in
  \<^verbatim>\<open>final_eval_step\<close> alike. For a batch of that size, the mean-field calibration
  with this covariance divides every logit by \<open>sqrt (1 + mean_field_factor)\<close>
  when the factor is not negative and returns the logits unchanged when it is
  negative. It leaves the logits unchanged when the factor is negative or
  zero, and otherwise exactly when every logit is 0.
\<close>

theorem baseline_identity_covariance:
  "logits_and_covmat n (Logits logits) = (logits, eye n)
   \<and> (length logits = n \<longrightarrow>
        final_eval_step_logits n f (Logits logits) =
          (if f < 0 then logits else map (\<lambda>x. x / sqrt (1 + f)) logits)
        \<and> fst (test_step_sample n f (Logits logits)) =
          (if f < 0 then logits else map (\<lambda>x. x / sqrt (1 + f)) logits)
        \<and> (f \<le> 0 \<longrightarrow> final_eval_step_logits n f (Logits logits) = logits
                    \<and> fst (test_step_sample n f (Logits logits)) = logits)
        \<and> (final_eval_step_logits n f (Logits logits) = logits
              \<longleftrightarrow> f \<le> 0 \<or> list_all (\<lambda>x. x = 0) logits)
        \<and> (fst (test_step_sample n f (Logits logits)) = logits
              \<longleftrightarrow> f \<le> 0 \<or> list_all (\<lambda>x. x = 0) logits))"
proof (intro conjI impI)
  show "logits_and_covmat n (Logits logits) = (logits, eye n)"
    by (simp add: logits_and_covmat_def)
next
  assume len: "length logits = n"
  have c: "mean_field_logits logits (eye n) f =
     (if f < 0 then logits else map (\<lambda>x. x / sqrt (1 + f)) logits)"
    using len by (rule mean_field_logits_eye)
  show fe: "final_eval_step_logits n f (Logits logits) =
          (if f < 0 then logits else map (\<lambda>x. x / sqrt (1 + f)) logits)"
    by (simp add: final_eval_step_logits_def logits_and_covmat_def c)
  show ts: "fst (test_step_sample n f (Logits logits)) =
          (if f < 0 then logits else map (\<lambda>x. x / sqrt (1 + f)) logits)"
    by (simp add: test_step_sample_def logits_and_covmat_def c)
  have u: "(if f < 0 then logits else map (\<lambda>x. x / sqrt (1 + f)) logits) = logits
        \<longleftrightarrow> f \<le> 0 \<or> list_all (\<lambda>x. x = 0) logits"
  proof (cases "0 < f")
    case True
    then show ?thesis by (simp add: scaled_logits_unchanged_iff)
  next
    case False
    then have "f < 0 \<or> f = 0" by auto
    then show ?thesis by auto
  qed
  show "final_eval_step_logits n f (Logits logits) = logits
              \<longleftrightarrow> f \<le> 0 \<or> list_all (\<lambda>x. x = 0) logits"
    unfolding fe by (rule u)
  show "fst (test_step_sample n f (Logits logits)) = logits
              \<longleftrightarrow> f \<le> 0 \<or> list_all (\<lambda>x. x = 0) logits"
    unfolding ts by (rule u)
  {
    assume "f \<le> 0"
    then show "final_eval_step_logits n f (Logits logits) = logits"
      unfolding fe using u by blast
  }
  {
    assume "f \<le> 0"
    then show "fst (test_step_sample n f (Logits logits)) = logits"
      unfolding ts using u by blast
  }
qed

theorem baseline_identity_covariance_witness:
  "final_eval_step_logits 2 3 (Logits [1, - 3]) = [1 / 2, - 3 / 2]
   \<and> fst (test_step_sample 2 3 (Logits [1, - 3])) = [1 / 2, - 3 / 2]
   \<and> final_eval_step_logits 2 0 (Logits [1, - 3]) = [1, - 3]
   \<and> final_eval_step_logits 2 (- 1) (Logits [1, - 3]) = [1, - 3]
   \<and> final_eval_step_logits 2 3 (Logits [1, - 3]) \<noteq> [1, - 3]
   \<and> final_eval_step_logits 1 5 (Logits [0]) = [0]"
  using baseline_identity_covariance [of 2 "[1, - 3]" 3]
        baseline_identity_covariance [of 2 "[1, - 3]" 0]
        baseline_identity_covariance [of 2 "[1, - 3]" "- 1"]
        baseline_identity_covariance [of 1 "[0]" 5]
  by simp

subsection \<open>Scaling of the training loss\<close>

text \<open>
  Claim C7. With at least one replica, the loss whose gradients are applied is
  the total loss (negative log-likelihood plus the L2 losses of the model)
  times \<open>1 / num_replicas\<close>. Summed over the replicas it is that loss again
  when the replicas hold the same batch, whatever their number, and the mean
  of the replicas' losses in general.
\<close>

theorem scaled_loss_spec:
  "0 < n \<longrightarrow>
     scaled_loss n lt labels logits model_losses =
       (train_negative_log_likelihood lt labels logits + sum_list model_losses) * (1 / real n)
     \<and> reduced_scaled_loss lt (replicate n (labels, logits, model_losses)) =
         train_loss lt labels logits model_losses
     \<and> (length replicas = n \<longrightarrow>
          reduced_scaled_loss lt replicas =
            reduce_mean (map (\<lambda>(labels, logits, model_losses).
                                train_loss lt labels logits model_losses) replicas))"
proof (intro conjI impI)
  show "scaled_loss n lt labels logits model_losses =
     (train_negative_log_likelihood lt labels logits + sum_list model_losses) * (1 / real n)"
    by (simp add: scaled_loss_def train_loss_def)
next
  assume "0 < n"
  then show "reduced_scaled_loss lt (replicate n (labels, logits, model_losses)) =
          train_loss lt labels logits model_losses"
    by (simp add: reduced_scaled_loss_def scaled_loss_def sum_list_replicate)
next
  have "sum_list (map (\<lambda>(labels, logits, model_losses).
                      scaled_loss k lt labels logits model_losses) rs)
      = sum_list (map (\<lambda>(labels, logits, model_losses).
                              train_loss lt labels logits model_losses) rs) / real k" for k rs
    by (induction rs) (auto simp: scaled_loss_def add_divide_distrib)
  then show "reduced_scaled_loss lt replicas =
          reduce_mean (map (\<lambda>(labels, logits, model_losses).
                              train_loss lt labels logits model_losses) replicas)"
    by (simp add: reduced_scaled_loss_def reduce_mean_def)
qed

theorem scaled_loss_witness:
  "reduced_scaled_loss mse [([1], [0], [1 / 4]), ([1], [0], [1 / 4])]
     = train_loss mse [1] [0] [1 / 4]
   \<and> scaled_loss 2 mse [1] [0] [1 / 4] = 1 / 4
   \<and> train_loss mse [1] [0] [1 / 4] = 1 / 2"
  using scaled_loss_spec [of 2 mse "[1]" "[0]" "[1 / 4]"
          "[([1], [0], [1 / 4]), ([1], [0], [1 / 4])]"]
  by (simp add: numeral_2_eq_2 train_loss_def train_negative_log_likelihood_def
        reduce_mean_def sigmoid_def power2_eq_square)

subsection \<open>Labels of the accuracy metrics\<close>

lemma sigmoid_le_half: "x \<le> 0 \<Longrightarrow> sigmoid x \<le> 1 - sigmoid x"
proof -
  assume "x \<le> 0"
  then have "1 \<le> exp (- x)" by simp
  then have "(2::real) \<le> 1 + exp (- x)" by simp
  then have "1 / (1 + exp (- x)) \<le> 1 / 2"
    by (intro frac_le) simp_all
  then show ?thesis by (simp add: sigmoid_def)
qed

text \<open>
  Claim C4 at a training batch with the raw label \<open>3/10\<close>, the logit \<open>-2\<close> and
  the threshold \<open>7/10\<close>: \<^verbatim>\<open>train/accuracy\<close> is updated with the raw label, which
  matches no predicted class, where the thresholded label 0 matches the
  prediction 0; \<^verbatim>\<open>test/acc\<close> on the same batch is updated with the thresholded
  label.
\<close>

theorem train_accuracy_raw_labels:
  "train_step_metric_updates (7 / 10) cross_entropy [3 / 10] [- 2] [] ! 0
     = (''train/accuracy'', LabelsPreds [3 / 10] [0])
   \<and> accuracy_matches (LabelsPreds [3 / 10] [0]) = 0
   \<and> ece_labels_of (7 / 10) [3 / 10] = [0]
   \<and> accuracy_matches (LabelsPreds (ece_labels_of (7 / 10) [3 / 10]) [0]) = 1
   \<and> test_step_metric_updates 1 (- 1) 1 (7 / 10) [] ''ind'' [3 / 10] (Logits [- 2]) ! 6
     = (''test/acc'', LabelsPreds [0] [0])"
proof -
  have p: "sigmoid (- 2) \<le> 1 - sigmoid (- 2)"
    by (rule sigmoid_le_half) simp
  have a: "pred_labels_of (ece_probs_of [sigmoid (- 2)]) = [0]"
    using p by (simp add: pred_labels_of_def ece_probs_of_def)
  have e: "ece_labels_of (7 / 10) [3 / 10] = [0]"
    by (simp add: ece_labels_of_def)
  have s: "test_step_sample (Suc 0) (- 1) (Logits [- 2]) = ([- 2], [1])"
    using diag_part_eye [of "Suc 0"]
    by (simp add: test_step_sample_def logits_and_covmat_def mean_field_logits_def)
  show ?thesis
    by (simp add: train_step_metric_updates_def test_step_metric_updates_def Let_def a e s
        reduce_mean_axis0_single test_metric_name_def)
qed

subsection \<open>Start from a checkpoint or from the pretrained encoder\<close>

text \<open>
  Claim C5. In a training run (not prediction mode): if the run directory
  \<^verbatim>\<open>output_dir\<close> holds a checkpoint, every variable of model and optimizer,
  the step counter included, takes the saved value, and the initial epoch is
  the saved step counter integer-divided by \<^verbatim>\<open>steps_per_epoch\<close>. If it holds
  none, nothing fails: the initial epoch is 0, the encoder is what loading the
  pretrained weights makes of it, and the other weights, the optimizer's slots
  and the step counter are untouched.
\<close>

theorem restore_or_load_pretrained_spec:
  "\<not> prediction_mode fl \<longrightarrow>
     (\<forall>saved. store (output_dir fl) = Some saved \<longrightarrow>
        restore_or_load_pretrained fl store load bert_ckpt_dir spe vars
          = (saved, iterations saved div spe))
     \<and> (store (output_dir fl) = None \<longrightarrow>
          restore_or_load_pretrained fl store load bert_ckpt_dir spe vars
            = (vars\<lparr>bert_encoder := load (bert_encoder vars) bert_ckpt_dir\<rparr>, 0)
          \<and> head_weights (fst (restore_or_load_pretrained fl store load bert_ckpt_dir spe vars))
              = head_weights vars
          \<and> optimizer_slots (fst (restore_or_load_pretrained fl store load bert_ckpt_dir spe vars))
              = optimizer_slots vars
          \<and> iterations (fst (restore_or_load_pretrained fl store load bert_ckpt_dir spe vars))
              = iterations vars)"
  by (simp add: restore_or_load_pretrained_def latest_checkpoint_def)

theorem restore_or_load_pretrained_witness:
  "restore_or_load_pretrained (demo_flags False)
       [''/tmp/toxic_comments'' \<mapsto> demo_variables 250] demo_load_bert (Some ''/bert/bert_model.ckpt'')
       100 (demo_variables 0)
     = (demo_variables 250, 2)
   \<and> restore_or_load_pretrained (demo_flags False)
       [''/ckpt'' \<mapsto> demo_variables 250] demo_load_bert (Some ''/bert/bert_model.ckpt'')
       100 (demo_variables 0)
     = (\<lparr>bert_encoder = 11, head_weights = 20, optimizer_slots = 30, iterations = 0\<rparr>, 0)"
  using restore_or_load_pretrained_spec
          [of "demo_flags False" "[''/tmp/toxic_comments'' \<mapsto> demo_variables 250]"
              demo_load_bert "Some ''/bert/bert_model.ckpt''" 100 "demo_variables 0"]
        restore_or_load_pretrained_spec
          [of "demo_flags False" "[''/ckpt'' \<mapsto> demo_variables 250]"
              demo_load_bert "Some ''/bert/bert_model.ckpt''" 100 "demo_variables 0"]
  by (simp add: demo_flags_def demo_variables_def demo_load_bert_def)

subsection \<open>End of data\<close>

lemma prediction_pass_eq:
  "prediction_pass step_fn n it collected
     = Inr (collected @ map step_fn (take n it), drop n it)"
proof (induction n arbitrary: it collected)
  case 0
  then show ?case by simp
next
  case (Suc n)
  show ?case
  proof (cases it)
    case Nil
    then show ?thesis using Suc.IH [of "[]" collected]
      by (simp add: final_eval_step_def)
  next
    case (Cons b rest)
    then show ?thesis using Suc.IH [of rest "collected @ [step_fn b]"]
      by (simp add: final_eval_step_def)
  qed
qed

lemma update_state_error:
  "update_state name u ms = Inl err \<Longrightarrow> err = KeyError name"
  by (induction ms) (auto split: if_splits sum.splits)

lemma update_states_error:
  "update_states ups ms = Inl err \<Longrightarrow> \<exists>k. err = KeyError k"
proof (induction ups arbitrary: ms)
  case Nil
  then show ?case by simp
next
  case (Cons up ups)
  obtain name u where up: "up = (name, u)" by (cases up)
  show ?case
  proof (cases "update_state name u ms")
    case (Inl e)
    with Cons.prems up show ?thesis by (auto dest: update_state_error)
  next
    case (Inr ms')
    with Cons.prems up have "update_states ups ms' = Inl err" by simp
    then show ?thesis by (rule Cons.IH)
  qed
qed

lemma train_step_iterator:
  "train_step e s = Inr s' \<Longrightarrow> train_iterator s = hd (train_iterator s) # train_iterator s'"
  by (auto simp: train_step_def split: list.splits sum.splits prod.splits)

lemma train_step_error:
  "train_step e s = Inl err \<Longrightarrow> err = OutOfRangeError \<or> (\<exists>k. err = KeyError k)"
  by (auto simp: train_step_def split: list.splits sum.splits prod.splits
      dest: update_states_error)

lemma train_steps_short:
  "length (train_iterator s) < n \<Longrightarrow>
   \<exists>err. train_steps e n s = Inl err \<and> (err = OutOfRangeError \<or> (\<exists>k. err = KeyError k))"
proof (induction n arbitrary: s)
  case 0
  then show ?case by simp
next
  case (Suc n)
  show ?case
  proof (cases "train_step e s")
    case (Inl err)
    then show ?thesis by (auto dest: train_step_error)
  next
    case (Inr s')
    from train_step_iterator [OF Inr] have "length (train_iterator s) = Suc (length (train_iterator s'))"
      by (metis length_Cons)
    with Suc.prems have "length (train_iterator s') < n" by simp
    from Suc.IH [OF this] Inr show ?thesis by simp
  qed
qed

text \<open>
  Claim C3, as stated, fails for training: with two steps per epoch and a
  training iterator that holds one batch, the second step raises
  \<^verbatim>\<open>OutOfRangeError\<close>, which ends the epoch and the whole training loop with that
  error.
\<close>

theorem end_of_data_counterexample:
  "run_epoch (demo_env 1) 0 (demo_state [5]) = Inl OutOfRangeError
   \<and> training_loop (demo_env 1) 0 (demo_state [5]) = Inl OutOfRangeError"
proof -
  have t: "train_steps (demo_env 1) (Suc (Suc 0)) (demo_state [5]) = Inl OutOfRangeError"
    by (simp add: train_step_def demo_env_def demo_state_def demo_train_step_fn_def)
  have n: "nat (steps_per_epoch (demo_env 1)) = Suc (Suc 0)"
    by (simp add: demo_env_def)
  have r: "run_epoch (demo_env 1) 0 (demo_state [5]) = Inl OutOfRangeError"
    unfolding run_epoch_def n t by simp
  have "[0..train_epochs (demo_env 1) - 1] = 0 # [1..2]"
    by (simp add: demo_env_def upto_rec1)
  then have "training_loop (demo_env 1) 0 (demo_state [5]) = Inl OutOfRangeError"
    unfolding training_loop_def using r by simp
  with r show ?thesis by simp
qed

text \<open>
  Claim C3, amended. In prediction mode, end of data during an evaluation pass
  is not an error: the pass returns what the steps before the end collected,
  in order, and every later step of the pass adds nothing. In training, an
  epoch is \<^verbatim>\<open>steps_per_epoch\<close> steps on one iterator shared by all epochs, and
  end of data is not caught: an iterator that holds fewer batches than that
  makes the epoch, and the loop over the epochs, end with an error, which is
  \<^verbatim>\<open>OutOfRangeError\<close> unless a metric update failed before.
\<close>

theorem end_of_data_spec:
  "prediction_pass step_fn n test_iterator collected
     = Inr (collected @ map step_fn (take n test_iterator), drop n test_iterator)
   \<and> (length (train_iterator s) < nat (steps_per_epoch e) \<longrightarrow>
        (\<exists>err. run_epoch e epoch s = Inl err
               \<and> run_epochs e (epoch # epochs) s = Inl err
               \<and> (err = OutOfRangeError \<or> (\<exists>k. err = KeyError k))))"
proof (intro conjI impI)
  show "prediction_pass step_fn n test_iterator collected
     = Inr (collected @ map step_fn (take n test_iterator), drop n test_iterator)"
    by (rule prediction_pass_eq)
next
  assume "length (train_iterator s) < nat (steps_per_epoch e)"
  from train_steps_short [OF this, of e]
  obtain err where "train_steps e (nat (steps_per_epoch e)) s = Inl err"
    and "err = OutOfRangeError \<or> (\<exists>k. err = KeyError k)" by blast
  then show "\<exists>err. run_epoch e epoch s = Inl err
               \<and> run_epochs e (epoch # epochs) s = Inl err
               \<and> (err = OutOfRangeError \<or> (\<exists>k. err = KeyError k))"
    by (simp add: run_epoch_def)
qed

theorem end_of_data_witness:
  "prediction_pass Suc 3 [1, 2] [] = Inr ([2, 3], [])
   \<and> (\<exists>err. run_epoch (demo_env 1) 0 (demo_state [5]) = Inl err)"
  using end_of_data_spec [of Suc 3 "[1, 2]" "[]" "demo_state [5]" "demo_env 1" 0 "[]"]
  by (auto simp: demo_env_def demo_state_def)

text \<open>
  The evaluation loop of training mode calls \<^verbatim>\<open>test_step\<close> outside any \<^verbatim>\<open>try\<close>:
  on a test dataset with fewer batches than \<^verbatim>\<open>steps_per_eval\<close> the error leaves
  the loop.
\<close>

lemma training_mode_evaluation_end_of_data:
  "evaluate_datasets (demo_env 1) [(''ind'', [])] (demo_state []) = Inl OutOfRangeError"
  by (simp add: test_step_def demo_env_def demo_steps_per_eval_def)

subsection \<open>Metrics and summaries of an epoch\<close>

lemma update_state_names:
  "update_state name u ms = Inr ms' \<Longrightarrow> map fst ms' = map fst ms"
  by (induction ms arbitrary: ms') (auto split: if_splits sum.splits)

lemma update_states_names:
  "update_states ups ms = Inr ms' \<Longrightarrow> map fst ms' = map fst ms"
proof (induction ups arbitrary: ms)
  case Nil
  then show ?case by simp
next
  case (Cons up ups)
  obtain name u where up: "up = (name, u)" by (cases up)
  with Cons.prems obtain ms1 where 1: "update_state name u ms = Inr ms1"
    and 2: "update_states ups ms1 = Inr ms'"
    by (auto split: sum.splits)
  from Cons.IH [OF 2] update_state_names [OF 1] show ?case by simp
qed

lemma train_step_keeps:
  "train_step e s = Inr s' \<Longrightarrow>
   map fst (metrics s') = map fst (metrics s) \<and> summaries s' = summaries s"
  by (auto simp: train_step_def split: list.splits sum.splits prod.splits
      dest: update_states_names)

lemma train_steps_keeps:
  "train_steps e n s = Inr s' \<Longrightarrow>
   map fst (metrics s') = map fst (metrics s) \<and> summaries s' = summaries s"
proof (induction n arbitrary: s)
  case 0
  then show ?case by simp
next
  case (Suc n)
  then obtain s1 where 1: "train_step e s = Inr s1" and 2: "train_steps e n s1 = Inr s'"
    by (auto split: sum.splits)
  from Suc.IH [OF 2] train_step_keeps [OF 1] show ?case by simp
qed

lemma test_step_keeps:
  "test_step e name its = Inr its' \<Longrightarrow>
   map fst (metrics (snd its')) = map fst (metrics (snd its))
   \<and> summaries (snd its') = summaries (snd its)"
  by (auto simp: test_step_def split: list.splits sum.splits dest: update_states_names)

lemma test_steps_keeps:
  "test_steps e name n its = Inr its' \<Longrightarrow>
   map fst (metrics (snd its')) = map fst (metrics (snd its))
   \<and> summaries (snd its') = summaries (snd its)"
proof (induction n arbitrary: its)
  case 0
  then show ?case by simp
next
  case (Suc n)
  then obtain its1 where 1: "test_step e name its = Inr its1"
    and 2: "test_steps e name n its1 = Inr its'"
    by (auto split: sum.splits)
  from Suc.IH [OF 2] test_step_keeps [OF 1] show ?case by simp
qed

lemma evaluate_datasets_keeps:
  "evaluate_datasets e ds s = Inr s' \<Longrightarrow>
   map fst (metrics s') = map fst (metrics s) \<and> summaries s' = summaries s"
proof (induction ds arbitrary: s)
  case Nil
  then show ?case by simp
next
  case (Cons d ds)
  obtain name batches where d: "d = (name, batches)" by (cases d)
  with Cons.prems obtain it s1 where
    1: "test_steps e name (nat (steps_per_eval e name)) (batches, s) = Inr (it, s1)"
    and 2: "evaluate_datasets e ds s1 = Inr s'"
    by (auto split: sum.splits)
  from Cons.IH [OF 2] test_steps_keeps [OF 1] show ?case by simp
qed

lemma reset_states_names: "reset_states ms = map (\<lambda>n. (n, [])) (map fst ms)"
  by (simp add: reset_states_def case_prod_unfold)

lemma evaluation_phase_skip:
  "evaluation_phase e epoch s = Inr s' \<Longrightarrow> epoch mod evaluation_interval e \<noteq> 0 \<Longrightarrow> s' = s"
  by (auto simp: evaluation_phase_def split: if_splits)

lemma evaluation_phase_write:
  assumes "evaluation_phase e epoch s = Inr s'" "epoch mod evaluation_interval e = 0"
  shows "map fst (metrics s') = map fst (metrics s)
    \<and> (\<exists>vals. summaries s' = summaries s @ vals
            \<and> map fst vals = map fst (metrics s)
            \<and> (\<forall>v \<in> set vals. snd (snd v) = epoch + 1))"
proof -
  from assms obtain s1 where 1: "evaluate_datasets e (test_datasets e) s = Inr s1"
    and 2: "s' = write_summaries e epoch s1"
    by (auto simp: evaluation_phase_def split: if_splits sum.splits)
  let ?vals = "map (\<lambda>(name, h). (name, metric_result e name h, epoch + 1)) (metrics s1)"
  from evaluate_datasets_keeps [OF 1]
  have k: "map fst (metrics s1) = map fst (metrics s)" "summaries s1 = summaries s" by simp_all
  have "summaries s' = summaries s @ ?vals"
    using 2 k by (simp add: write_summaries_def)
  moreover have "map fst ?vals = map fst (metrics s)"
    using k(1) by (simp add: case_prod_unfold o_def)
  moreover have "\<forall>v \<in> set ?vals. snd (snd v) = epoch + 1"
    by auto
  moreover have "map fst (metrics s') = map fst (metrics s)"
    using 2 k by (simp add: write_summaries_def)
  ultimately show ?thesis by blast
qed

text \<open>
  Claim C10. An epoch of the training loop that completes leaves every metric
  accumulator reset (the same names, each with nothing accumulated), whether
  or not it evaluated. If \<open>epoch mod evaluation_interval\<close> is not 0 the summary
  sink is unchanged, so what the accumulators held is dropped unwritten; if it
  is 0, one scalar per metric is appended, each at step \<open>epoch + 1\<close>.
\<close>

theorem run_epoch_metrics_and_summaries:
  "run_epoch e epoch s = Inr s' \<longrightarrow>
     metrics s' = map (\<lambda>name. (name, [])) (map fst (metrics s))
     \<and> evaluation_interval e \<noteq> 0
     \<and> (epoch mod evaluation_interval e \<noteq> 0 \<longrightarrow> summaries s' = summaries s)
     \<and> (epoch mod evaluation_interval e = 0 \<longrightarrow>
          (\<exists>vals. summaries s' = summaries s @ vals
                 \<and> map fst vals = map fst (metrics s)
                 \<and> (\<forall>v \<in> set vals. snd (snd v) = epoch + 1)))"
proof
  assume r: "run_epoch e epoch s = Inr s'"
  then obtain s1 s2 where 1: "train_steps e (nat (steps_per_epoch e)) s = Inr s1"
    and 2: "evaluation_phase e epoch s1 = Inr s2"
    and 3: "s' = checkpoint_phase e epoch (s2\<lparr>metrics := reset_states (metrics s2)\<rparr>)"
    by (auto simp: run_epoch_def split: sum.splits)
  from train_steps_keeps [OF 1]
  have k1: "map fst (metrics s1) = map fst (metrics s)" "summaries s1 = summaries s" by simp_all
  have m: "metrics s' = reset_states (metrics s2)" and su: "summaries s' = summaries s2"
    using 3 by (simp_all add: checkpoint_phase_def)
  have nz: "evaluation_interval e \<noteq> 0"
    using 2 by (auto simp: evaluation_phase_def split: if_splits)
  have names2: "map fst (metrics s2) = map fst (metrics s)"
  proof (cases "epoch mod evaluation_interval e = 0")
    case True
    from evaluation_phase_write [OF 2 True] k1 show ?thesis by simp
  next
    case False
    from evaluation_phase_skip [OF 2 False] k1 show ?thesis by simp
  qed
  have a: "metrics s' = map (\<lambda>name. (name, [])) (map fst (metrics s))"
    using m names2 by (simp add: reset_states_names)
  have b: "epoch mod evaluation_interval e \<noteq> 0 \<longrightarrow> summaries s' = summaries s"
    using evaluation_phase_skip [OF 2] su k1 by auto
  have c: "epoch mod evaluation_interval e = 0 \<longrightarrow>
          (\<exists>vals. summaries s' = summaries s @ vals
                 \<and> map fst vals = map fst (metrics s)
                 \<and> (\<forall>v \<in> set vals. snd (snd v) = epoch + 1))"
    using evaluation_phase_write [OF 2] su k1 by auto
  from a nz b c show "metrics s' = map (\<lambda>name. (name, [])) (map fst (metrics s))
     \<and> evaluation_interval e \<noteq> 0
     \<and> (epoch mod evaluation_interval e \<noteq> 0 \<longrightarrow> summaries s' = summaries s)
     \<and> (epoch mod evaluation_interval e = 0 \<longrightarrow>
          (\<exists>vals. summaries s' = summaries s @ vals
                 \<and> map fst vals = map fst (metrics s)
                 \<and> (\<forall>v \<in> set vals. snd (snd v) = epoch + 1)))"
    by blast
qed

lemma demo_train_steps:
  "train_steps (demo_env i) (Suc (Suc 0)) (demo_state [5, 6])
     = Inr \<lparr>model = 11, train_iterator = [],
            metrics = [(''train/loss'', [5, 6]), (''test/nll'', [])],
            summaries = [], checkpoints = []\<rparr>"
  by (simp add: train_step_def demo_env_def demo_state_def demo_train_step_fn_def)

lemma demo_run_epoch_1:
  "run_epoch (demo_env 2) 1 (demo_state [5, 6])
     = Inr \<lparr>model = 11, train_iterator = [],
            metrics = [(''train/loss'', []), (''test/nll'', [])],
            summaries = [], checkpoints = []\<rparr>"
proof -
  have n: "nat (steps_per_epoch (demo_env 2)) = Suc (Suc 0)"
    by (simp add: demo_env_def)
  show ?thesis
    unfolding run_epoch_def n demo_train_steps
    by (simp add: evaluation_phase_def checkpoint_phase_def reset_states_def demo_env_def)
qed

lemma demo_run_epoch_0:
  "run_epoch (demo_env 2) 0 (demo_state [5, 6])
     = Inr \<lparr>model = 11, train_iterator = [],
            metrics = [(''train/loss'', []), (''test/nll'', [])],
            summaries = [(''train/loss'', 11, 1), (''test/nll'', 7, 1)], checkpoints = []\<rparr>"
proof -
  have n: "nat (steps_per_epoch (demo_env 2)) = Suc (Suc 0)"
    by (simp add: demo_env_def)
  show ?thesis
    unfolding run_epoch_def n demo_train_steps
    by (simp add: evaluation_phase_def checkpoint_phase_def reset_states_def demo_env_def
        test_step_def demo_steps_per_eval_def demo_test_step_fn_def write_summaries_def
        demo_metric_result_def)
qed

theorem run_epoch_metrics_and_summaries_witness:
  "run_epoch (demo_env 2) 1 (demo_state [5, 6])
     = Inr \<lparr>model = 11, train_iterator = [],
            metrics = [(''train/loss'', []), (''test/nll'', [])],
            summaries = [], checkpoints = []\<rparr>
   \<and> metrics \<lparr>model = 11::nat, train_iterator = []::nat list,
            metrics = [(''train/loss'', []::nat list), (''test/nll'', [])],
            summaries = []::(string \<times> nat \<times> int) list, checkpoints = []\<rparr>
       = map (\<lambda>name. (name, [])) (map fst (metrics (demo_state [5, 6])))
   \<and> run_epoch (demo_env 2) 0 (demo_state [5, 6])
     = Inr \<lparr>model = 11, train_iterator = [],
            metrics = [(''train/loss'', []), (''test/nll'', [])],
            summaries = [(''train/loss'', 11, 1), (''test/nll'', 7, 1)], checkpoints = []\<rparr>"
  using run_epoch_metrics_and_summaries
          [of "demo_env 2" 1 "demo_state [5, 6]"
              "\<lparr>model = 11, train_iterator = [],
                metrics = [(''train/loss'', []), (''test/nll'', [])],
                summaries = [], checkpoints = []\<rparr>"]
        demo_run_epoch_1 demo_run_epoch_0
  by simp

end
